theory Spec2Isabelle
  imports Main "HOL-Library.Option_ord"
begin

section \<open>The email scheduler service (mini-services/email-scheduler/index.ts)\<close>

text \<open>
  The service is an Express application with three handlers
  (POST /api/emails/schedule, GET /api/emails/scheduled, GET /api/emails/sent), a Redis
  counter used as an hourly rate limiter, and a BullMQ worker that sends one email per
  task. The embedding is shallow: the relational store, the queue and the counter
  store are fields of one \<open>state\<close> record that every operation takes and returns;
  a thrown exception is the \<open>Inl\<close> of a sum; everything the code reads from its
  surroundings (the clock, generated ids, whether the queue or the mail transport
  fails, what the zod and Date libraries accept) is an explicit argument.

  Conventions: instants are milliseconds since the epoch (\<open>int\<close>, what
  \<open>Date.getTime()\<close> returns); the numeric request fields are integers and the
  elements of \<open>recipients\<close> are strings; strings are \<open>string\<close>, read as
  sequences of code units below 256.
\<close>

subsection \<open>Strings\<close>

text \<open>Decimal rendering of a number inside a template literal.\<close>

fun show_nat :: "nat \<Rightarrow> string" where
  "show_nat n =
     (if n < 10 then [char_of (48 + n)]
      else show_nat (n div 10) @ [char_of (48 + n mod 10)])"

definition show_int :: "int \<Rightarrow> string" where
  "show_int i = (if i < 0 then CHR ''-'' # show_nat (nat (- i)) else show_nat (nat i))"

text \<open>
  White space as \<open>String.prototype.trim\<close> and the regular expression class
  \<open>\s\<close> see it, among the code units below 256: TAB, LF, VT, FF, CR, SPACE and
  NO-BREAK SPACE.
\<close>

definition is_space :: "char \<Rightarrow> bool" where
  "is_space c = ((of_char c :: nat) \<in> {9, 10, 11, 12, 13, 32, 160})"

definition trim :: "string \<Rightarrow> string" where
  "trim s = rev (dropWhile is_space (rev (dropWhile is_space s)))"

text \<open>
  \<open>toLowerCase\<close> on one code unit below 256: A to Z, and the Latin-1 capitals
  U+00C0 to U+00DE without the multiplication sign U+00D7, move up by 32.
\<close>

definition toLowerChar :: "char \<Rightarrow> char" where
  "toLowerChar c =
     (let n = (of_char c :: nat)
      in if (65 \<le> n \<and> n \<le> 90) \<or> (192 \<le> n \<and> n \<le> 222 \<and> n \<noteq> 215)
         then char_of (n + 32) else c)"

definition toLowerCase :: "string \<Rightarrow> string" where
  "toLowerCase s = map toLowerChar s"

text \<open>lib/security.ts: \<open>sanitizeEmail(email) = email.trim().toLowerCase()\<close>.\<close>

definition sanitizeEmail :: "string \<Rightarrow> string" where
  "sanitizeEmail email = toLowerCase (trim email)"

text \<open>\<open>s.split('@')[0]\<close>: the part of \<open>s\<close> before its first \<open>@\<close>.\<close>

definition split_at_0 :: "string \<Rightarrow> string" where
  "split_at_0 s = takeWhile (\<lambda>c. c \<noteq> CHR ''@'') s"

text \<open>
  The regular expression \<open>/^[^\s@]+@[^\s@]+\.[^\s@]+$/\<close> used by both GET handlers
  and by \<open>getUserByEmail\<close>. A string matches when it is \<open>A @ B . C\<close> with
  \<open>A\<close>, \<open>B\<close>, \<open>C\<close> non-empty and free of white space and of \<open>@\<close>; \<open>B\<close>
  and \<open>C\<close> may hold further dots, so the condition on the part after the \<open>@\<close>
  is a dot that is neither its first nor its last character.
\<close>

definition emailRegex_test :: "string \<Rightarrow> bool" where
  "emailRegex_test s =
     (let local = takeWhile (\<lambda>c. c \<noteq> CHR ''@'') s;
          rest = dropWhile (\<lambda>c. c \<noteq> CHR ''@'') s
      in local \<noteq> [] \<and> rest \<noteq> [] \<and>
         list_all (\<lambda>c. \<not> is_space c) s \<and>
         CHR ''@'' \<notin> set (tl rest) \<and>
         CHR ''.'' \<in> set (butlast (tl (tl rest))))"

subsection \<open>Responses\<close>

datatype json =
    JNull
  | JNum int
  | JStr string
  | JArr "json list"
  | JObj "(string \<times> json) list"

text \<open>Every string value that occurs in a document, at any depth.\<close>

fun json_strings :: "json \<Rightarrow> string list" where
  "json_strings JNull = []"
| "json_strings (JNum n) = []"
| "json_strings (JStr s) = [s]"
| "json_strings (JArr xs) = concat (map json_strings xs)"
| "json_strings (JObj kvs) = concat (map (\<lambda>kv. json_strings (snd kv)) kvs)"

text \<open>\<open>res.status(n).json(b)\<close>; \<open>res.json(b)\<close> is status 200.\<close>

record response =
  status_code :: nat
  json_body :: json

definition error_response :: "nat \<Rightarrow> string \<Rightarrow> response" where
  "error_response n msg = \<lparr>status_code = n, json_body = JObj [(''error'', JStr msg)]\<rparr>"

subsection \<open>Data model (types/email.ts and the Prisma calls of index.ts)\<close>

datatype recipient_status = Pending | Scheduled | Sent | Failed

datatype job_status = JobPending | JobProcessing | JobCompleted | JobFailed

record user =
  u_id :: string
  u_email :: string
  u_name :: string

record emailJob =
  j_id :: string
  j_subject :: string
  j_body :: string
  j_scheduledFor :: int
  j_delaySeconds :: int
  j_hourlyLimit :: int
  j_status :: job_status
  j_userId :: string

record emailRecipient =
  r_id :: string
  r_email :: string
  r_emailJobId :: string
  r_status :: recipient_status
  r_scheduledAt :: "int option"
  r_sentAt :: "int option"
  r_errorMessage :: "string option"
  r_retryCount :: nat

text \<open>\<open>SendEmailJobData\<close>, and an entry of the BullMQ queue with its options.\<close>

record sendEmailJobData =
  t_recipientId :: string
  t_email :: string
  t_subject :: string
  t_body :: string
  t_jobId :: string
  t_userId :: string
  t_hourlyLimit :: int

record queued =
  q_name :: string
  q_data :: sendEmailJobData
  q_delay :: int
  q_attempts :: nat
  q_backoff_type :: string
  q_backoff_delay :: nat

text \<open>
  The state the service works on: the three tables reached through \<open>db\<close>, the
  \<open>emails\<close> queue, and the Redis counters with the time-to-live \<open>expire\<close> set
  on them (in seconds; the model records it and does not let time pass).
\<close>

record state =
  users :: "user list"
  emailJobs :: "emailJob list"
  emailRecipients :: "emailRecipient list"
  emailQueue :: "queued list"
  redis_count :: "string \<Rightarrow> nat"
  redis_ttl :: "string \<Rightarrow> nat option"

subsection \<open>Exceptions\<close>

text \<open>
  What a \<open>catch\<close> of the service can receive: a known Prisma request error with
  its code, a Prisma validation error, any other \<open>Error\<close> with its message, or a
  thrown value that is not an \<open>Error\<close>. The texts of Prisma's own messages are
  stand-ins; the code only compares a message with the rate-limit text.
\<close>

datatype thrown =
    PrismaKnownError string string
  | PrismaValidationError string
  | Error string
  | NonError

fun instanceof_Error :: "thrown \<Rightarrow> bool" where
  "instanceof_Error NonError = False"
| "instanceof_Error _ = True"

fun message :: "thrown \<Rightarrow> string" where
  "message (PrismaKnownError c m) = m"
| "message (PrismaValidationError m) = m"
| "message (Error m) = m"
| "message NonError = []"

fun prisma_code :: "thrown \<Rightarrow> string option" where
  "prisma_code (PrismaKnownError c m) = Some c"
| "prisma_code _ = None"

definition P2002 :: thrown where
  "P2002 = PrismaKnownError ''P2002'' ''Unique constraint failed''"

definition P2003 :: thrown where
  "P2003 = PrismaKnownError ''P2003'' ''Foreign key constraint failed''"

definition P2025 :: thrown where
  "P2025 = PrismaKnownError ''P2025'' ''Record to update not found.''"

subsection \<open>The store operations the service calls\<close>

text \<open>
  The Prisma client \<open>db\<close> of \<open>lib/db\<close> and its schema are not among the sources.
  Each operation below is modelled from the Store interface of the specification
  (find a user by id or by email, transactional creation of a job with its recipients,
  point updates, listing by filter, a distinguishable unique-constraint error) on an
  in-memory store: a call fails only on a constraint (unique id, unique user email,
  foreign key, record to update missing), with Prisma's error codes.
\<close>

text \<open>Modelled from the spec: \<open>db.user.findUnique\<close> by id (Store, \<open>findUserById\<close>).\<close>

definition db_user_findUnique_id :: "string \<Rightarrow> state \<Rightarrow> user option" where
  "db_user_findUnique_id i st = find (\<lambda>u. u_id u = i) (users st)"

text \<open>Modelled from the spec: \<open>db.user.findUnique\<close> by email (Store, \<open>findUserByEmail\<close>).\<close>

definition db_user_findUnique_email :: "string \<Rightarrow> state \<Rightarrow> user option" where
  "db_user_findUnique_email e st = find (\<lambda>u. u_email u = e) (users st)"

text \<open>
  Modelled from the spec: \<open>db.user.create\<close>; the id and the email of a user are
  unique, and a violation is the unique-constraint error (code P2002).
\<close>

definition db_user_create :: "user \<Rightarrow> state \<Rightarrow> thrown + state" where
  "db_user_create u st =
     (if list_ex (\<lambda>v. u_id v = u_id u \<or> u_email v = u_email u) (users st)
      then Inl P2002
      else Inr (st\<lparr>users := users st @ [u]\<rparr>))"

text \<open>
  Modelled from the spec: \<open>db.emailJob.create\<close> with nested
  \<open>recipients: {create: [...]}\<close> and \<open>include: {recipients: true}\<close> (Store,
  \<open>createJobWithRecipients\<close>): one transaction inserting the job and its recipients.
  The created recipients come back in the order of the submitted list.
\<close>

definition db_emailJob_create ::
    "emailJob \<Rightarrow> emailRecipient list \<Rightarrow> state \<Rightarrow> thrown + state" where
  "db_emailJob_create j rs st =
     (if \<not> list_ex (\<lambda>u. u_id u = j_userId j) (users st) then Inl P2003
      else if list_ex (\<lambda>k. j_id k = j_id j) (emailJobs st)
           \<or> list_ex (\<lambda>r. r_id r \<in> set (map r_id rs)) (emailRecipients st)
           \<or> \<not> distinct (map r_id rs)
      then Inl P2002
      else Inr (st\<lparr>emailJobs := emailJobs st @ [j],
                   emailRecipients := emailRecipients st @ rs\<rparr>))"

text \<open>
  Modelled from the spec: \<open>db.emailRecipient.update\<close> (Store, \<open>updateRecipient\<close>);
  a missing row is Prisma's error P2025.
\<close>

definition db_emailRecipient_update ::
    "string \<Rightarrow> (emailRecipient \<Rightarrow> emailRecipient) \<Rightarrow> state \<Rightarrow> thrown + state" where
  "db_emailRecipient_update i f st =
     (if list_ex (\<lambda>r. r_id r = i) (emailRecipients st)
      then Inr (st\<lparr>emailRecipients :=
                    map (\<lambda>r. if r_id r = i then f r else r) (emailRecipients st)\<rparr>)
      else Inl P2025)"

text \<open>Modelled from the spec: \<open>db.emailJob.update\<close> (Store, \<open>updateJob\<close>).\<close>

definition db_emailJob_update ::
    "string \<Rightarrow> (emailJob \<Rightarrow> emailJob) \<Rightarrow> state \<Rightarrow> thrown + state" where
  "db_emailJob_update i f st =
     (if list_ex (\<lambda>j. j_id j = i) (emailJobs st)
      then Inr (st\<lparr>emailJobs := map (\<lambda>j. if j_id j = i then f j else j) (emailJobs st)\<rparr>)
      else Inl P2025)"

text \<open>Modelled from the spec: \<open>db.emailRecipient.findMany\<close> (Store, \<open>listRecipients\<close>), before ordering and \<open>take\<close>.\<close>

definition db_emailRecipient_findMany ::
    "(emailRecipient \<Rightarrow> bool) \<Rightarrow> state \<Rightarrow> emailRecipient list" where
  "db_emailRecipient_findMany p st = filter p (emailRecipients st)"

text \<open>
  Modelled from the spec: the \<open>emailJob\<close> relation of a recipient, as
  \<open>include: {emailJob: ...}\<close> reads it.
\<close>

definition emailJob_of :: "state \<Rightarrow> emailRecipient \<Rightarrow> emailJob option" where
  "emailJob_of st r = find (\<lambda>j. j_id j = r_emailJobId r) (emailJobs st)"

subsection \<open>Request validation: \<open>scheduleEmailSchema\<close>\<close>

text \<open>
  A field of the JSON request body: absent, present with a value of another type than
  the schema asks for, or present with a value of that type.
\<close>

datatype 'a field = Missing | IllTyped | Val 'a

record schedule_body =
  b_subject :: "string field"
  b_body :: "string field"
  b_recipients :: "string list field"
  b_startTime :: "string field"
  b_delaySeconds :: "int field"
  b_hourlyLimit :: "int field"
  b_userId :: "string field"
  b_userEmail :: "string field"

text \<open>
  What the libraries decide: zod's \<open>.email()\<close> and \<open>.datetime()\<close> checks, and
  the Date constructor (\<open>date_parse s\<close> is \<open>new Date(s).getTime()\<close>, \<open>None\<close>
  for NaN) with \<open>toISOString\<close>.
\<close>

record libs =
  zod_email :: "string \<Rightarrow> bool"
  zod_datetime :: "string \<Rightarrow> bool"
  date_parse :: "string \<Rightarrow> int option"
  toISOString :: "int \<Rightarrow> string"

text \<open>The value \<open>scheduleEmailSchema.parse\<close> returns.\<close>

record schedule_data =
  d_subject :: string
  d_body :: string
  d_recipients :: "string list"
  d_startTime :: string
  d_delaySeconds :: int
  d_hourlyLimit :: int
  d_userId :: string
  d_userEmail :: "string option"

text \<open>
  The issues of one field, each named by its path (zod's message text is left out).
  \<open>z.string().min(1)\<close>:
\<close>

definition string_min1_issues :: "string \<Rightarrow> string field \<Rightarrow> string list" where
  "string_min1_issues path f =
     (case f of Val s \<Rightarrow> (if s = [] then [path] else []) | _ \<Rightarrow> [path])"

text \<open>\<open>z.array(z.string().email()).min(1)\<close>:\<close>

definition recipients_issues :: "libs \<Rightarrow> string list field \<Rightarrow> string list" where
  "recipients_issues L f =
     (case f of
        Val xs \<Rightarrow>
          (if xs = [] then [''recipients''] else []) @
          concat (map (\<lambda>(i, x). if zod_email L x then [] else [''recipients.'' @ show_nat i])
                      (enumerate 0 xs))
      | _ \<Rightarrow> [''recipients''])"

text \<open>
  \<open>z.preprocess(...)\<close> on \<open>startTime\<close>: a string that the Date constructor
  parses is replaced by its ISO form, any other value passes through unchanged.
\<close>

definition preprocess_startTime :: "libs \<Rightarrow> string field \<Rightarrow> string field" where
  "preprocess_startTime L f =
     (case f of
        Val s \<Rightarrow> (case date_parse L s of Some t \<Rightarrow> Val (toISOString L t) | None \<Rightarrow> Val s)
      | other \<Rightarrow> other)"

text \<open>\<open>z.string().datetime()\<close> on the preprocessed value:\<close>

definition startTime_issues :: "libs \<Rightarrow> string field \<Rightarrow> string list" where
  "startTime_issues L f =
     (case preprocess_startTime L f of
        Val s \<Rightarrow> (if zod_datetime L s then [] else [''startTime''])
      | _ \<Rightarrow> [''startTime''])"

text \<open>\<open>z.number().min(lo).max(hi)\<close>:\<close>

definition number_issues :: "string \<Rightarrow> int \<Rightarrow> int \<Rightarrow> int field \<Rightarrow> string list" where
  "number_issues path lo hi f =
     (case f of
        Val n \<Rightarrow> (if n < lo then [path] else []) @ (if hi < n then [path] else [])
      | _ \<Rightarrow> [path])"

text \<open>\<open>z.string()\<close> and \<open>z.string().email().optional()\<close>:\<close>

definition string_issues :: "string \<Rightarrow> string field \<Rightarrow> string list" where
  "string_issues path f = (case f of Val s \<Rightarrow> [] | _ \<Rightarrow> [path])"

definition optional_email_issues :: "libs \<Rightarrow> string \<Rightarrow> string field \<Rightarrow> string list" where
  "optional_email_issues L path f =
     (case f of
        Missing \<Rightarrow> []
      | Val s \<Rightarrow> (if zod_email L s then [] else [path])
      | IllTyped \<Rightarrow> [path])"

definition schema_issues :: "libs \<Rightarrow> schedule_body \<Rightarrow> string list" where
  "schema_issues L b =
     string_min1_issues ''subject'' (b_subject b) @
     string_min1_issues ''body'' (b_body b) @
     recipients_issues L (b_recipients b) @
     startTime_issues L (b_startTime b) @
     number_issues ''delaySeconds'' 1 300 (b_delaySeconds b) @
     number_issues ''hourlyLimit'' 1 1000 (b_hourlyLimit b) @
     string_issues ''userId'' (b_userId b) @
     optional_email_issues L ''userEmail'' (b_userEmail b)"

fun field_value :: "'a \<Rightarrow> 'a field \<Rightarrow> 'a" where
  "field_value d (Val x) = x"
| "field_value d _ = d"

fun field_optional :: "'a field \<Rightarrow> 'a option" where
  "field_optional (Val x) = Some x"
| "field_optional _ = None"

text \<open>
  \<open>scheduleEmailSchema.parse(req.body)\<close>: the ZodError with its issues, or the
  parsed data (built only when no field has an issue, so that every field is a \<open>Val\<close>
  and the defaults below are never read).
\<close>

definition scheduleEmailSchema_parse :: "libs \<Rightarrow> schedule_body \<Rightarrow> string list + schedule_data" where
  "scheduleEmailSchema_parse L b =
     (if schema_issues L b \<noteq> [] then Inl (schema_issues L b)
      else Inr \<lparr>d_subject = field_value [] (b_subject b),
                d_body = field_value [] (b_body b),
                d_recipients = field_value [] (b_recipients b),
                d_startTime = field_value [] (preprocess_startTime L (b_startTime b)),
                d_delaySeconds = field_value 0 (b_delaySeconds b),
                d_hourlyLimit = field_value 0 (b_hourlyLimit b),
                d_userId = field_value [] (b_userId b),
                d_userEmail = field_optional (b_userEmail b)\<rparr>)"

subsection \<open>POST /api/emails/schedule\<close>

text \<open>
  What one run of the handler reads from outside: the ids Prisma generates for the job
  and for the recipient at each position, the value of \<open>Date.now()\<close> in the callback
  of each position, and whether \<open>emailQueue.add\<close> succeeds for that position.
\<close>

record schedule_env =
  job_cuid :: string
  recipient_cuid :: "nat \<Rightarrow> string"
  date_now :: "nat \<Rightarrow> int"
  queue_add_ok :: "nat \<Rightarrow> bool"

text \<open>A step of a handler: an early \<open>return res...\<close>, a \<open>throw\<close>, or a value to go on with.\<close>

datatype 'a step = Respond response | Raise thrown | Next 'a

text \<open>
  Lines 114 to 156: find the user by id, or create it, or reuse the owner of the email.
  \<open>!data.userEmail\<close> holds for an absent and for an empty email.
\<close>

definition resolve_user :: "schedule_data \<Rightarrow> state \<Rightarrow> (user \<times> state) step" where
  "resolve_user d st =
     (case db_user_findUnique_id (d_userId d) st of
        Some u \<Rightarrow> Next (u, st)
      | None \<Rightarrow>
          (case d_userEmail d of
             None \<Rightarrow> Respond (error_response 400 ''User email is required. Please log in again.'')
           | Some em \<Rightarrow>
               (if em = []
                then Respond (error_response 400 ''User email is required. Please log in again.'')
                else
                  (let u = \<lparr>u_id = d_userId d, u_email = em, u_name = split_at_0 em\<rparr>
                   in case db_user_create u st of
                        Inr st' \<Rightarrow> Next (u, st')
                      | Inl createError \<Rightarrow>
                          (if prisma_code createError = Some ''P2002''
                           then (case db_user_findUnique_email em st of
                                   Some v \<Rightarrow> Next (v, st)
                                 | None \<Rightarrow> Raise createError)
                           else Raise createError)))))"

text \<open>
  Lines 161 to 179: the job and one recipient per submitted address, each with
  \<open>status: 'pending'\<close>. The other columns take the defaults of the schema, which
  is not among the sources; they follow the data model of the specification (a new job
  is pending; a new recipient has no \<open>scheduledAt\<close>, \<open>sentAt\<close> or
  \<open>errorMessage\<close> and \<open>retryCount\<close> 0). An invalid Date as
  \<open>scheduledFor\<close> is refused by the client before anything is written.
\<close>

definition new_recipients :: "schedule_env \<Rightarrow> string list \<Rightarrow> emailRecipient list" where
  "new_recipients env emails =
     map (\<lambda>(i, email). \<lparr>r_id = recipient_cuid env i, r_email = email,
                          r_emailJobId = job_cuid env, r_status = Pending,
                          r_scheduledAt = None, r_sentAt = None,
                          r_errorMessage = None, r_retryCount = 0\<rparr>)
         (enumerate 0 emails)"

definition create_emailJob ::
    "schedule_env \<Rightarrow> schedule_data \<Rightarrow> int option \<Rightarrow> user \<Rightarrow> state \<Rightarrow> thrown + state" where
  "create_emailJob env d startTime u st =
     (case startTime of
        None \<Rightarrow> Inl (PrismaValidationError ''Provided Date object is invalid. Expected Date.'')
      | Some t \<Rightarrow>
          db_emailJob_create
            \<lparr>j_id = job_cuid env, j_subject = d_subject d, j_body = d_body d,
             j_scheduledFor = t, j_delaySeconds = d_delaySeconds d,
             j_hourlyLimit = d_hourlyLimit d, j_status = JobPending, j_userId = u_id u\<rparr>
            (new_recipients env (d_recipients d)) st)"

text \<open>
  Lines 182 to 221: the callback of \<open>emailJob.recipients.map\<close> for the recipient at
  \<open>index\<close>, then the remaining ones. The callbacks write different rows, so running
  them one after the other gives the state their interleaving gives. A callback that
  rejects makes \<open>Promise.all\<close> reject; the others still run to their end. The
  result says whether every callback was fulfilled.
\<close>

fun fan_out ::
    "schedule_env \<Rightarrow> schedule_data \<Rightarrow> int \<Rightarrow> user \<Rightarrow> nat \<Rightarrow> emailRecipient list \<Rightarrow> state
     \<Rightarrow> state \<times> bool" where
  "fan_out env d startTime u index [] st = (st, True)"
| "fan_out env d startTime u index (recipient # rest) st =
     (let delay = int index * d_delaySeconds d * 1000;
          scheduledTime = startTime + delay;
          queueDelay = max 0 (scheduledTime - date_now env index);
          isImmediate = queueDelay < 10000
      in case db_emailRecipient_update (r_id recipient)
                (\<lambda>r. r\<lparr>r_scheduledAt := Some scheduledTime,
                        r_status := (if isImmediate then Pending else Scheduled)\<rparr>) st of
           Inl e \<Rightarrow> (fst (fan_out env d startTime u (Suc index) rest st), False)
         | Inr st1 \<Rightarrow>
             (if queue_add_ok env index
              then fan_out env d startTime u (Suc index) rest
                     (st1\<lparr>emailQueue := emailQueue st1 @
                        [\<lparr>q_name = ''send-email'',
                          q_data = \<lparr>t_recipientId = r_id recipient, t_email = r_email recipient,
                                    t_subject = d_subject d, t_body = d_body d,
                                    t_jobId = job_cuid env, t_userId = u_id u,
                                    t_hourlyLimit = d_hourlyLimit d\<rparr>,
                          q_delay = queueDelay, q_attempts = 3,
                          q_backoff_type = ''exponential'', q_backoff_delay = 5000\<rparr>]\<rparr>)
              else (fst (fan_out env d startTime u (Suc index) rest st1), False)))"

definition post_schedule ::
    "libs \<Rightarrow> schedule_env \<Rightarrow> schedule_body \<Rightarrow> state \<Rightarrow> state \<times> response" where
  "post_schedule L env b st =
     (case scheduleEmailSchema_parse L b of
        Inl issues \<Rightarrow>
          (st, \<lparr>status_code = 400,
                json_body = JObj [(''error'', JStr ''Validation failed''),
                                  (''details'', JArr (map JStr issues))]\<rparr>)
      | Inr d \<Rightarrow>
          (let startTime = date_parse L (d_startTime d)
           in if d_userId d = ''default-user'' \<or> d_userId d = []
              then (st, error_response 400 ''Invalid user ID. Please log in again.'')
              else
                (case resolve_user d st of
                   Respond r \<Rightarrow> (st, r)
                 | Raise e \<Rightarrow> (st, error_response 500 ''Failed to schedule email'')
                 | Next (u, st1) \<Rightarrow>
                     (case create_emailJob env d startTime u st1 of
                        Inl e \<Rightarrow> (st1, error_response 500 ''Failed to schedule email'')
                      | Inr st2 \<Rightarrow>
                          (case fan_out env d (the startTime) u 0
                                  (new_recipients env (d_recipients d)) st2 of
                             (st3, fulfilled) \<Rightarrow>
                               (if fulfilled
                                then (st3,
                                      \<lparr>status_code = 200,
                                       json_body = JObj
                                         [(''jobId'', JStr (job_cuid env)),
                                          (''recipientCount'',
                                             JNum (int (length (new_recipients env (d_recipients d))))),
                                          (''scheduledFor'', JStr (toISOString L (the startTime)))]\<rparr>)
                                else (st3, error_response 500 ''Failed to schedule email'')))))))"

subsection \<open>GET /api/emails/scheduled and GET /api/emails/sent\<close>

text \<open>lib/security.ts, \<open>getUserByEmail\<close>: no query for an address the pattern refuses.\<close>

definition getUserByEmail :: "string \<Rightarrow> state \<Rightarrow> user option" where
  "getUserByEmail email st =
     (if \<not> emailRegex_test email then None else db_user_findUnique_email email st)"

text \<open>
  Lines 264 to 291 and 371 to 398, the same in both handlers: the user of the
  sanitised address, created when there is none. \<open>cuid\<close> is the id Prisma generates
  for the new row.
\<close>

definition user_for_read :: "string \<Rightarrow> string \<Rightarrow> state \<Rightarrow> (user \<times> state) step" where
  "user_for_read cuid sanitizedEmail st =
     (case getUserByEmail sanitizedEmail st of
        Some u \<Rightarrow> Next (u, st)
      | None \<Rightarrow>
          (let u = \<lparr>u_id = cuid, u_email = sanitizedEmail, u_name = split_at_0 sanitizedEmail\<rparr>
           in case db_user_create u st of
                Inr st' \<Rightarrow> Next (u, st')
              | Inl createError \<Rightarrow>
                  (if prisma_code createError = Some ''P2002''
                   then (case getUserByEmail sanitizedEmail st of
                           Some v \<Rightarrow> Next (v, st)
                         | None \<Rightarrow> Respond \<lparr>status_code = 200, json_body = JArr []\<rparr>)
                   else Respond \<lparr>status_code = 200, json_body = JArr []\<rparr>)))"

fun status_string :: "recipient_status \<Rightarrow> string" where
  "status_string Pending = ''pending''"
| "status_string Scheduled = ''scheduled''"
| "status_string Sent = ''sent''"
| "status_string Failed = ''failed''"

text \<open>
  The relation filter \<open>emailJob: {userId: ...}\<close> of the two queries, and the
  handlers' own second check \<open>r.emailJob.userId === user.id\<close>.
\<close>

definition owned_by :: "state \<Rightarrow> string \<Rightarrow> emailRecipient \<Rightarrow> bool" where
  "owned_by st uid r = (case emailJob_of st r of Some j \<Rightarrow> j_userId j = uid | None \<Rightarrow> False)"

definition scheduled_row :: "libs \<Rightarrow> state \<Rightarrow> emailRecipient \<Rightarrow> json list" where
  "scheduled_row L st r =
     (case emailJob_of st r of
        None \<Rightarrow> []
      | Some j \<Rightarrow>
          [JObj [(''id'', JStr (r_id r)), (''email'', JStr (r_email r)),
                 (''subject'', JStr (j_subject j)), (''body'', JStr (j_body j)),
                 (''scheduledFor'',
                    JStr (case r_scheduledAt r of
                            Some t \<Rightarrow> toISOString L t
                          | None \<Rightarrow> toISOString L (j_scheduledFor j))),
                 (''status'', JStr (status_string (r_status r)))]])"

definition sent_row :: "libs \<Rightarrow> state \<Rightarrow> emailRecipient \<Rightarrow> json list" where
  "sent_row L st r =
     (case emailJob_of st r of
        None \<Rightarrow> []
      | Some j \<Rightarrow>
          [JObj ([(''id'', JStr (r_id r)), (''email'', JStr (r_email r)),
                  (''subject'', JStr (j_subject j)), (''body'', JStr (j_body j))] @
                 (case r_sentAt r of Some t \<Rightarrow> [(''sentAt'', JStr (toISOString L t))] | None \<Rightarrow> []) @
                 [(''status'', JStr (status_string (r_status r))),
                  (''errorMessage'',
                     (case r_errorMessage r of Some m \<Rightarrow> JStr m | None \<Rightarrow> JNull))])])"

text \<open>
  The query parameter \<open>userEmail\<close> is \<open>None\<close> when it is absent or not a string.
  \<open>orderBy\<close> is a stable sort on the column with null first (descending: the
  reverse), then \<open>take: 100\<close>.
\<close>

definition get_scheduled :: "libs \<Rightarrow> string \<Rightarrow> string option \<Rightarrow> state \<Rightarrow> state \<times> response" where
  "get_scheduled L cuid userEmail st =
     (case userEmail of
        None \<Rightarrow> (st, error_response 400 ''userEmail parameter is required'')
      | Some e \<Rightarrow>
          (if e = [] then (st, error_response 400 ''userEmail parameter is required'')
           else if \<not> emailRegex_test (sanitizeEmail e)
           then (st, error_response 400 ''Invalid email format'')
           else
             (case user_for_read cuid (sanitizeEmail e) st of
                Respond r \<Rightarrow> (st, r)
              | Raise x \<Rightarrow> (st, error_response 500 ''Failed to fetch scheduled emails'')
              | Next (u, st1) \<Rightarrow>
                  (let recipients =
                         take 100 (sort_key r_scheduledAt
                           (db_emailRecipient_findMany
                              (\<lambda>r. r_status r \<in> {Pending, Scheduled} \<and> owned_by st1 (u_id u) r) st1))
                   in (st1, \<lparr>status_code = 200,
                             json_body = JArr (concat (map (scheduled_row L st1)
                                            (filter (owned_by st1 (u_id u)) recipients)))\<rparr>)))))"

definition get_sent :: "libs \<Rightarrow> string \<Rightarrow> string option \<Rightarrow> state \<Rightarrow> state \<times> response" where
  "get_sent L cuid userEmail st =
     (case userEmail of
        None \<Rightarrow> (st, error_response 400 ''userEmail parameter is required'')
      | Some e \<Rightarrow>
          (if e = [] then (st, error_response 400 ''userEmail parameter is required'')
           else if \<not> emailRegex_test (sanitizeEmail e)
           then (st, error_response 400 ''Invalid email format'')
           else
             (case user_for_read cuid (sanitizeEmail e) st of
                Respond r \<Rightarrow> (st, r)
              | Raise x \<Rightarrow> (st, error_response 500 ''Failed to fetch sent emails'')
              | Next (u, st1) \<Rightarrow>
                  (let recipients =
                         take 100 (rev (sort_key r_sentAt
                           (db_emailRecipient_findMany
                              (\<lambda>r. r_status r \<in> {Sent, Failed} \<and> owned_by st1 (u_id u) r) st1)))
                   in (st1, \<lparr>status_code = 200,
                             json_body = JArr (concat (map (sent_row L st1)
                                            (filter (owned_by st1 (u_id u)) recipients)))\<rparr>)))))"

subsection \<open>The rate limiter: \<open>checkRateLimit\<close>\<close>

definition hour_ms :: int where
  "hour_ms = 1000 * 60 * 60"

definition rate_limit_key :: "string \<Rightarrow> int \<Rightarrow> string" where
  "rate_limit_key userId now = ''rate_limit:'' @ userId @ '':'' @ show_int (now div hour_ms)"

text \<open>
  \<open>now\<close> is the value of \<open>Date.now()\<close> at line 461. \<open>connection.incr\<close> counts
  a key that does not exist from 0; the Redis calls themselves do not fail here.
\<close>

definition checkRateLimit :: "string \<Rightarrow> int \<Rightarrow> int \<Rightarrow> state \<Rightarrow> bool \<times> state" where
  "checkRateLimit userId hourlyLimit now st =
     (let key = rate_limit_key userId now;
          currentCount = redis_count st key + 1;
          st1 = st\<lparr>redis_count := (redis_count st)(key := currentCount)\<rparr>;
          st2 = (if currentCount = 1
                 then st1\<lparr>redis_ttl := (redis_ttl st1)(key := Some 3600)\<rparr> else st1)
      in (int currentCount \<le> hourlyLimit, st2))"


subsection \<open>The worker\<close>

text \<open>
  What one execution of the processor reads from outside: \<open>Date.now()\<close> inside
  \<open>checkRateLimit\<close>, \<open>Date.now()\<close> at line 489, \<open>new Date()\<close> at line 522,
  and what \<open>transporter.sendMail\<close> does: it throws, or returns a message id.
\<close>

record worker_env =
  now_limit :: int
  now_next :: int
  now_sent :: int
  sendMail :: "thrown + string"

definition rate_limit_message :: string where
  "rate_limit_message = ''Rate limit exceeded, will retry next hour''"

text \<open>\<open>Math.ceil(now / (1000 * 60 * 60)) * (1000 * 60 * 60)\<close>:\<close>

definition nextHour :: "int \<Rightarrow> int" where
  "nextHour now = (- ((- now) div hour_ms)) * hour_ms"

text \<open>
  The \<open>catch\<close> block, lines 541 to 559, entered in state \<open>st\<close> with \<open>error\<close>.
  An update that throws inside the block replaces the error.
\<close>

definition worker_catch :: "string \<Rightarrow> thrown \<Rightarrow> state \<Rightarrow> state \<times> (thrown + string)" where
  "worker_catch recipientId error st =
     (if instanceof_Error error \<and> message error = rate_limit_message
      then (st, Inl error)
      else
        (case db_emailRecipient_update recipientId
                (\<lambda>r. r\<lparr>r_status := Failed,
                        r_errorMessage :=
                          Some (if instanceof_Error error then message error else ''Unknown error''),
                        r_retryCount := r_retryCount r + 1\<rparr>) st of
           Inl e \<Rightarrow> (st, Inl e)
         | Inr st' \<Rightarrow> (st', Inl error)))"

text \<open>Lines 526 to 538: the completion check, run right after the recipient is marked sent.\<close>

definition allSent :: "string \<Rightarrow> state \<Rightarrow> bool" where
  "allSent jobId st =
     list_all (\<lambda>r. r_status r = Sent)
       (db_emailRecipient_findMany (\<lambda>r. r_emailJobId r = jobId) st)"

definition completion_check :: "string \<Rightarrow> state \<Rightarrow> thrown + state" where
  "completion_check jobId st =
     (if allSent jobId st
      then db_emailJob_update jobId (\<lambda>j. j\<lparr>j_status := JobCompleted\<rparr>) st
      else Inr st)"

text \<open>The processor, lines 480 to 560: the final state, and the error thrown or the message id.\<close>

definition worker :: "worker_env \<Rightarrow> sendEmailJobData \<Rightarrow> state \<Rightarrow> state \<times> (thrown + string)" where
  "worker env job st =
     (case checkRateLimit (t_userId job) (t_hourlyLimit job) (now_limit env) st of
        (canSend, st1) \<Rightarrow>
          (if \<not> canSend
           then
             (case db_emailRecipient_update (t_recipientId job)
                     (\<lambda>r. r\<lparr>r_status := Scheduled,
                             r_scheduledAt := Some (nextHour (now_next env))\<rparr>) st1 of
                Inl e \<Rightarrow> worker_catch (t_recipientId job) e st1
              | Inr st2 \<Rightarrow> worker_catch (t_recipientId job) (Error rate_limit_message) st2)
           else
             (case sendMail env of
                Inl e \<Rightarrow> worker_catch (t_recipientId job) e st1
              | Inr messageId \<Rightarrow>
                  (case db_emailRecipient_update (t_recipientId job)
                          (\<lambda>r. r\<lparr>r_status := Sent, r_sentAt := Some (now_sent env)\<rparr>) st1 of
                     Inl e \<Rightarrow> worker_catch (t_recipientId job) e st1
                   | Inr st2 \<Rightarrow>
                       (case completion_check (t_jobId job) st2 of
                          Inl e \<Rightarrow> worker_catch (t_recipientId job) e st2
                        | Inr st3 \<Rightarrow> (st3, Inr messageId))))))"

subsection \<open>Concrete inputs\<close>

text \<open>The service before any request: empty tables, empty queue, no counter.\<close>

definition empty_state :: state where
  "empty_state = \<lparr>users = [], emailJobs = [], emailRecipients = [], emailQueue = [],
                   redis_count = (\<lambda>k. 0), redis_ttl = (\<lambda>k. None)\<rparr>"

definition demo_user :: user where
  "demo_user = \<lparr>u_id = ''u1'', u_email = ''ann@x.com'', u_name = ''ann''\<rparr>"

definition demo_job :: emailJob where
  "demo_job = \<lparr>j_id = ''j1'', j_subject = ''Hi'', j_body = ''Hello'',
                j_scheduledFor = 1700000000000, j_delaySeconds = 5, j_hourlyLimit = 1,
                j_status = JobPending, j_userId = ''u1''\<rparr>"

definition demo_recipient :: "string \<Rightarrow> recipient_status \<Rightarrow> emailRecipient" where
  "demo_recipient i s =
     \<lparr>r_id = i, r_email = ''bob@x.com'', r_emailJobId = ''j1'', r_status = s,
      r_scheduledAt = Some 1700000000000, r_sentAt = None, r_errorMessage = None,
      r_retryCount = 0\<rparr>"

text \<open>
  One user with one job of two recipients: \<open>r1\<close> is pending, \<open>r2\<close> has the given
  status; every Redis counter holds \<open>count\<close>.
\<close>

definition demo_state :: "recipient_status \<Rightarrow> nat \<Rightarrow> state" where
  "demo_state sibling count =
     \<lparr>users = [demo_user], emailJobs = [demo_job],
      emailRecipients = [demo_recipient ''r1'' Pending, demo_recipient ''r2'' sibling],
      emailQueue = [], redis_count = (\<lambda>k. count), redis_ttl = (\<lambda>k. None)\<rparr>"

text \<open>The task of recipient \<open>r1\<close>, with an hourly limit of 1.\<close>

definition demo_task :: sendEmailJobData where
  "demo_task = \<lparr>t_recipientId = ''r1'', t_email = ''bob@x.com'', t_subject = ''Hi'',
                 t_body = ''Hello'', t_jobId = ''j1'', t_userId = ''u1'', t_hourlyLimit = 1\<rparr>"

definition demo_worker_env :: "thrown + string \<Rightarrow> worker_env" where
  "demo_worker_env mail =
     \<lparr>now_limit = 1700000000000, now_next = 1700000000500, now_sent = 1700000001000,
      sendMail = mail\<rparr>"

text \<open>
  Stand-ins for the libraries that accept one start time, 2030-01-01T00:00:00.000Z
  (1893456000000 ms), and every address with an \<open>@\<close>; a request with three
  recipients and a delay of 5 seconds; the data its validation returns; and an
  environment with the given clock and queue behaviour.
\<close>

definition demo_libs :: libs where
  "demo_libs =
     \<lparr>zod_email = (\<lambda>s. CHR ''@'' \<in> set s),
      zod_datetime = (\<lambda>s. s = ''2030-01-01T00:00:00.000Z''),
      date_parse = (\<lambda>s. if s = ''2030-01-01T00:00:00.000Z'' then Some 1893456000000 else None),
      toISOString = (\<lambda>t. if t = 1893456000000 then ''2030-01-01T00:00:00.000Z'' else ''other'')\<rparr>"

definition demo_body :: schedule_body where
  "demo_body =
     \<lparr>b_subject = Val ''Hi'', b_body = Val ''Hello'',
      b_recipients = Val [''a@x.com'', ''b@x.com'', ''c@x.com''],
      b_startTime = Val ''2030-01-01T00:00:00.000Z'',
      b_delaySeconds = Val 5, b_hourlyLimit = Val 1000,
      b_userId = Val ''u1'', b_userEmail = Val ''ann@x.com''\<rparr>"

definition demo_data :: schedule_data where
  "demo_data =
     \<lparr>d_subject = ''Hi'', d_body = ''Hello'',
      d_recipients = [''a@x.com'', ''b@x.com'', ''c@x.com''],
      d_startTime = ''2030-01-01T00:00:00.000Z'',
      d_delaySeconds = 5, d_hourlyLimit = 1000,
      d_userId = ''u1'', d_userEmail = Some ''ann@x.com''\<rparr>"

definition demo_schedule_env :: "(nat \<Rightarrow> int) \<Rightarrow> (nat \<Rightarrow> bool) \<Rightarrow> schedule_env" where
  "demo_schedule_env clock ok =
     \<lparr>job_cuid = ''j1'',
      recipient_cuid = (\<lambda>i. if i = 0 then ''r0'' else if i = 1 then ''r1'' else ''r2''),
      date_now = clock, queue_add_ok = ok\<rparr>"

text \<open>Clocks that read the same instant in every callback, and queues that fail at one position.\<close>

definition at_start :: "nat \<Rightarrow> int" where
  "at_start i = 1893456000000"

definition ten_seconds_early :: "nat \<Rightarrow> int" where
  "ten_seconds_early i = 1893455990000"

definition eight_seconds_early :: "nat \<Rightarrow> int" where
  "eight_seconds_early i = 1893455992000"

definition every_add :: "nat \<Rightarrow> bool" where
  "every_add i = True"

definition all_but_second :: "nat \<Rightarrow> bool" where
  "all_but_second i = (i \<noteq> 1)"

definition all_but_third :: "nat \<Rightarrow> bool" where
  "all_but_third i = (i \<noteq> 2)"


section \<open>Properties\<close>

lemmas demo_defs = demo_user_def demo_job_def demo_recipient_def demo_state_def demo_task_def
  demo_worker_env_def

lemmas worker_defs = worker_def worker_catch_def completion_check_def allSent_def
  checkRateLimit_def db_emailRecipient_update_def db_emailJob_update_def
  db_emailRecipient_findMany_def Let_def


subsection \<open>The rate limiter\<close>







subsection \<open>The worker\<close>

lemma checkRateLimit_tables:
  "checkRateLimit u K now st = (b, st1) \<Longrightarrow>
   emailRecipients st1 = emailRecipients st \<and> emailJobs st1 = emailJobs st
   \<and> users st1 = users st \<and> emailQueue st1 = emailQueue st"
  by (auto simp: checkRateLimit_def Let_def)

lemma db_emailRecipient_update_Inr:
  "db_emailRecipient_update i f st = Inr st' \<Longrightarrow>
   list_ex (\<lambda>r. r_id r = i) (emailRecipients st)
   \<and> emailRecipients st' = map (\<lambda>r. if r_id r = i then f r else r) (emailRecipients st)
   \<and> emailJobs st' = emailJobs st \<and> users st' = users st \<and> emailQueue st' = emailQueue st"
  by (auto simp: db_emailRecipient_update_def split: if_splits)

lemma db_emailRecipient_update_exists:
  "list_ex (\<lambda>r. r_id r = i) (emailRecipients st) \<Longrightarrow>
   db_emailRecipient_update i f st =
     Inr (st\<lparr>emailRecipients := map (\<lambda>r. if r_id r = i then f r else r) (emailRecipients st)\<rparr>)"
  by (simp add: db_emailRecipient_update_def)





text \<open>
  C5. When the send is admitted and \<open>sendMail\<close> throws anything that is not
  classified as the rate-limit signal, and the recipient of the task exists, the
  worker sets that recipient to \<open>failed\<close>, stores the error's message (the text
  \<open>Unknown error\<close> for a thrown value that is not an Error), adds exactly one to
  \<open>retryCount\<close>, and throws the same error again.
\<close>

theorem worker_send_failed:
  assumes "fst (checkRateLimit (t_userId job) (t_hourlyLimit job) (now_limit env) st)"
      and "sendMail env = Inl e"
      and "\<not> (instanceof_Error e \<and> message e = rate_limit_message)"
      and "list_ex (\<lambda>r. r_id r = t_recipientId job) (emailRecipients st)"
  shows "snd (worker env job st) = Inl e
     \<and> emailRecipients (fst (worker env job st)) =
         map (\<lambda>r. if r_id r = t_recipientId job
                   then r\<lparr>r_status := Failed,
                          r_errorMessage := Some (if instanceof_Error e then message e else ''Unknown error''),
                          r_retryCount := r_retryCount r + 1\<rparr>
                   else r) (emailRecipients st)"
proof -
  obtain b st1 where c: "checkRateLimit (t_userId job) (t_hourlyLimit job) (now_limit env) st = (b, st1)"
    by (cases "checkRateLimit (t_userId job) (t_hourlyLimit job) (now_limit env) st")
  have b: "b" using assms(1) c by simp
  have t: "emailRecipients st1 = emailRecipients st"
    using checkRateLimit_tables [OF c] by simp
  have ex: "list_ex (\<lambda>r. r_id r = t_recipientId job) (emailRecipients st1)"
    using assms(4) t by simp
  show ?thesis
    using c b t assms(2,3)
    by (simp add: worker_def db_emailRecipient_update_exists [OF ex] worker_catch_def)
qed



theorem worker_send_failed_witness:
  "snd (worker (demo_worker_env (Inl (Error ''Connection refused''))) demo_task (demo_state Sent 0))
     = Inl (Error ''Connection refused'')
   \<and> map (\<lambda>r. (r_status r, r_errorMessage r, r_retryCount r))
        (emailRecipients (fst (worker (demo_worker_env (Inl (Error ''Connection refused'')))
                                  demo_task (demo_state Sent 0))))
     = [(Failed, Some ''Connection refused'', 1), (Sent, None, 0)]"
  using worker_send_failed [of demo_task "demo_worker_env (Inl (Error ''Connection refused''))"
                               "demo_state Sent 0" "Error ''Connection refused''"]
  by (simp add: demo_defs checkRateLimit_def Let_def rate_limit_message_def)

lemma db_emailJob_update_Inr:
  "db_emailJob_update i f st = Inr st' \<Longrightarrow>
   emailJobs st' = map (\<lambda>j. if j_id j = i then f j else j) (emailJobs st)
   \<and> emailRecipients st' = emailRecipients st"
  by (auto simp: db_emailJob_update_def split: if_splits)

lemma worker_catch_Inl: "\<exists>x. snd (worker_catch i e st) = Inl x"
  by (auto simp: worker_catch_def split: sum.splits)

lemma worker_catch_emailJobs: "emailJobs (fst (worker_catch i e st)) = emailJobs st"
  by (auto simp: worker_catch_def dest: db_emailRecipient_update_Inr split: sum.splits)

lemma worker_catch_others:
  "r \<in> set (emailRecipients st) \<Longrightarrow> r_id r \<noteq> i \<Longrightarrow>
   r \<in> set (emailRecipients (fst (worker_catch i e st)))"
  by (auto simp: worker_catch_def dest!: db_emailRecipient_update_Inr split: sum.splits)

lemma update_others:
  "db_emailRecipient_update i f st = Inr st' \<Longrightarrow> r \<in> set (emailRecipients st) \<Longrightarrow>
   r_id r \<noteq> i \<Longrightarrow> r \<in> set (emailRecipients st')"
  by (auto dest!: db_emailRecipient_update_Inr)

lemma completion_check_Inr:
  "completion_check jobId st = Inr st' \<Longrightarrow>
   emailRecipients st' = emailRecipients st \<and>
   emailJobs st' = (if allSent jobId st
                    then map (\<lambda>j. if j_id j = jobId then j\<lparr>j_status := JobCompleted\<rparr> else j) (emailJobs st)
                    else emailJobs st)"
  by (auto simp: completion_check_def dest: db_emailJob_update_Inr split: if_splits)

lemma allSent_cong:
  "emailRecipients st' = emailRecipients st \<Longrightarrow> allSent jobId st' = allSent jobId st"
  by (simp add: allSent_def db_emailRecipient_findMany_def)

lemma worker_cases:
  obtains (caught) e s where
      "worker env job st = worker_catch (t_recipientId job) e s"
      "emailJobs s = emailJobs st"
      "\<And>r. r \<in> set (emailRecipients st) \<Longrightarrow> r_id r \<noteq> t_recipientId job
            \<Longrightarrow> r \<in> set (emailRecipients s)"
  | (sent) m st2 st3 where
      "worker env job st = (st3, Inr m)"
      "completion_check (t_jobId job) st2 = Inr st3"
      "emailJobs st2 = emailJobs st"
      "\<And>r. r \<in> set (emailRecipients st) \<Longrightarrow> r_id r \<noteq> t_recipientId job
            \<Longrightarrow> r \<in> set (emailRecipients st2)"
proof -
  obtain b st1 where c: "checkRateLimit (t_userId job) (t_hourlyLimit job) (now_limit env) st = (b, st1)"
    by (cases "checkRateLimit (t_userId job) (t_hourlyLimit job) (now_limit env) st")
  have j1: "emailJobs st1 = emailJobs st" and r1: "emailRecipients st1 = emailRecipients st"
    using checkRateLimit_tables [OF c] by simp_all
  show thesis
  proof (cases b)
    case False
    let ?upd = "db_emailRecipient_update (t_recipientId job)
                  (\<lambda>r. r\<lparr>r_status := Scheduled, r_scheduledAt := Some (nextHour (now_next env))\<rparr>) st1"
    show thesis
    proof (cases ?upd)
      case (Inl e)
      have "worker env job st = worker_catch (t_recipientId job) e st1"
        using c False Inl by (simp add: worker_def)
      then show thesis using caught [of e st1] j1 r1 by simp
    next
      case (Inr st2)
      have w: "worker env job st = worker_catch (t_recipientId job) (Error rate_limit_message) st2"
        using c False Inr by (simp add: worker_def)
      have "emailJobs st2 = emailJobs st"
        using db_emailRecipient_update_Inr [OF Inr] j1 by simp
      moreover have "\<And>r. r \<in> set (emailRecipients st) \<Longrightarrow> r_id r \<noteq> t_recipientId job
            \<Longrightarrow> r \<in> set (emailRecipients st2)"
        using update_others [OF Inr] r1 by simp
      ultimately show thesis using caught [of "Error rate_limit_message" st2] w by blast
    qed
  next
    case True
    show thesis
    proof (cases "sendMail env")
      case (Inl e)
      have "worker env job st = worker_catch (t_recipientId job) e st1"
        using c True Inl by (simp add: worker_def)
      then show thesis using caught [of e st1] j1 r1 by simp
    next
      case (Inr m)
      let ?upd = "db_emailRecipient_update (t_recipientId job)
                    (\<lambda>r. r\<lparr>r_status := Sent, r_sentAt := Some (now_sent env)\<rparr>) st1"
      show thesis
      proof (cases ?upd)
        case (Inl e)
        have "worker env job st = worker_catch (t_recipientId job) e st1"
          using c True \<open>sendMail env = Inr m\<close> Inl by (simp add: worker_def)
        then show thesis using caught [of e st1] j1 r1 by simp
      next
        case upd: (Inr st2)
        have j2: "emailJobs st2 = emailJobs st"
          using db_emailRecipient_update_Inr [OF upd] j1 by simp
        have o2: "\<And>r. r \<in> set (emailRecipients st) \<Longrightarrow> r_id r \<noteq> t_recipientId job
            \<Longrightarrow> r \<in> set (emailRecipients st2)"
          using update_others [OF upd] r1 by simp
        show thesis
        proof (cases "completion_check (t_jobId job) st2")
          case (Inl e)
          have "worker env job st = worker_catch (t_recipientId job) e st2"
            using c True \<open>sendMail env = Inr m\<close> upd Inl by (simp add: worker_def)
          then show thesis using caught [of e st2] j2 o2 by blast
        next
          case (Inr st3)
          have "worker env job st = (st3, Inr m)"
            using c True \<open>sendMail env = Inr m\<close> upd Inr by (simp add: worker_def)
          then show thesis using sent [of st3 m st2] Inr j2 o2 by blast
        qed
      qed
    qed
  qed
qed

lemma worker_others:
  assumes "r \<in> set (emailRecipients st)" and "r_id r \<noteq> t_recipientId job"
  shows "r \<in> set (emailRecipients (fst (worker env job st)))"
proof (cases rule: worker_cases [of env job st])
  case (caught e s)
  then show ?thesis using assms worker_catch_others by simp
next
  case (sent m st2 st3)
  then show ?thesis using assms completion_check_Inr by fastforce
qed

lemma worker_jobs:
  "emailJobs (fst (worker env job st)) =
     (if (\<exists>m. snd (worker env job st) = Inr m) \<and> allSent (t_jobId job) (fst (worker env job st))
      then map (\<lambda>j. if j_id j = t_jobId job then j\<lparr>j_status := JobCompleted\<rparr> else j) (emailJobs st)
      else emailJobs st)"
proof (cases rule: worker_cases [of env job st])
  case (caught e s)
  have "\<not> (\<exists>m. snd (worker env job st) = Inr m)"
    using caught(1) worker_catch_Inl [of "t_recipientId job" e s] by auto
  then show ?thesis using caught worker_catch_emailJobs by simp
next
  case (sent m st2 st3)
  have "allSent (t_jobId job) st3 = allSent (t_jobId job) st2"
    using completion_check_Inr [OF sent(2)] allSent_cong by blast
  then show ?thesis
    using sent completion_check_Inr [OF sent(2)] by simp
qed


text \<open>
  C2. The only write to a job is the one of the completion check: after an execution
  the jobs table is the table before it with the task's job set to \<open>completed\<close>
  when the execution returned normally (so the recipient was marked sent and the
  check ran) and every recipient of that job is sent at that point, and is the
  unchanged table in every other case. In particular no execution writes
  \<open>completed\<close> while a sibling recipient is pending, scheduled or failed.
\<close>

theorem worker_completion:
  "emailJobs (fst (worker env job st)) =
     (if (\<exists>m. snd (worker env job st) = Inr m) \<and> allSent (t_jobId job) (fst (worker env job st))
      then map (\<lambda>j. if j_id j = t_jobId job then j\<lparr>j_status := JobCompleted\<rparr> else j) (emailJobs st)
      else emailJobs st)
   \<and> ((\<exists>r\<in>set (emailRecipients st).
          r_emailJobId r = t_jobId job \<and> r_id r \<noteq> t_recipientId job
          \<and> r_status r \<in> {Pending, Scheduled, Failed})
       \<longrightarrow> emailJobs (fst (worker env job st)) = emailJobs st)"
proof (intro conjI impI)
  show "emailJobs (fst (worker env job st)) =
     (if (\<exists>m. snd (worker env job st) = Inr m) \<and> allSent (t_jobId job) (fst (worker env job st))
      then map (\<lambda>j. if j_id j = t_jobId job then j\<lparr>j_status := JobCompleted\<rparr> else j) (emailJobs st)
      else emailJobs st)"
    by (rule worker_jobs)
next
  assume "\<exists>r\<in>set (emailRecipients st).
          r_emailJobId r = t_jobId job \<and> r_id r \<noteq> t_recipientId job
          \<and> r_status r \<in> {Pending, Scheduled, Failed}"
  then obtain r where r: "r \<in> set (emailRecipients st)" "r_emailJobId r = t_jobId job"
      "r_id r \<noteq> t_recipientId job" "r_status r \<noteq> Sent"
    by auto
  have "r \<in> set (emailRecipients (fst (worker env job st)))"
    using worker_others [OF r(1) r(3)] .
  then have "\<not> allSent (t_jobId job) (fst (worker env job st))"
    using r(2) r(4) by (auto simp: allSent_def db_emailRecipient_findMany_def list_all_iff)
  then show "emailJobs (fst (worker env job st)) = emailJobs st"
    using worker_jobs [of env job st] by simp
qed

theorem worker_completion_witness:
  "map j_status (emailJobs (fst (worker (demo_worker_env (Inr ''m1'')) demo_task (demo_state Sent 0))))
     = [JobCompleted]
   \<and> map j_status (emailJobs (fst (worker (demo_worker_env (Inr ''m1'')) demo_task (demo_state Failed 0))))
     = [JobPending]
   \<and> snd (worker (demo_worker_env (Inr ''m1'')) demo_task (demo_state Failed 0)) = Inr ''m1''"
  using worker_completion [of "demo_worker_env (Inr ''m1'')" demo_task "demo_state Sent 0"]
        worker_completion [of "demo_worker_env (Inr ''m1'')" demo_task "demo_state Failed 0"]
  by (simp add: demo_defs worker_defs)

subsection \<open>The submission handler\<close>

lemma db_emailRecipient_update_head:
  assumes "emailRecipients st = A @ r # rs"
      and "r_id r \<notin> r_id ` set A" and "r_id r \<notin> r_id ` set rs"
  shows "db_emailRecipient_update (r_id r) f st = Inr (st\<lparr>emailRecipients := A @ f r # rs\<rparr>)"
proof -
  have "map (\<lambda>x. if r_id x = r_id r then f x else x) A = A"
    using assms(2) by (induction A) auto
  moreover have "map (\<lambda>x. if r_id x = r_id r then f x else x) rs = rs"
    using assms(3) by (induction rs) auto
  ultimately show ?thesis
    using assms(1) by (simp add: db_emailRecipient_update_def)
qed

lemma fan_out_recipients:
  assumes "emailRecipients st = A @ rs" and "distinct (map r_id rs)"
      and "r_id ` set A \<inter> r_id ` set rs = {}"
  shows "emailRecipients (fst (fan_out env d t u k rs st)) =
           A @ map (\<lambda>(i, r). r\<lparr>r_scheduledAt := Some (t + int i * d_delaySeconds d * 1000),
                                r_status := (if max 0 (t + int i * d_delaySeconds d * 1000 - date_now env i) < 10000
                                             then Pending else Scheduled)\<rparr>)
                   (enumerate k rs)
         \<and> emailJobs (fst (fan_out env d t u k rs st)) = emailJobs st
         \<and> users (fst (fan_out env d t u k rs st)) = users st
         \<and> snd (fan_out env d t u k rs st) = list_all (queue_add_ok env) [k..<k + length rs]"
  using assms
proof (induction rs arbitrary: A k st)
  case Nil
  then show ?case by simp
next
  case (Cons r rs)
  let ?f = "\<lambda>x. x\<lparr>r_scheduledAt := Some (t + int k * d_delaySeconds d * 1000),
                    r_status := (if max 0 (t + int k * d_delaySeconds d * 1000 - date_now env k) < 10000
                                 then Pending else Scheduled)\<rparr>"
  have notA: "r_id r \<notin> r_id ` set A" and notrs: "r_id r \<notin> r_id ` set rs"
    using Cons.prems(2,3) by auto
  let ?st1 = "st\<lparr>emailRecipients := A @ ?f r # rs\<rparr>"
  have upd: "db_emailRecipient_update (r_id r) ?f st = Inr ?st1"
    by (rule db_emailRecipient_update_head [OF Cons.prems(1) notA notrs])
  have dis: "r_id ` set (A @ [?f r]) \<inter> r_id ` set rs = {}"
    using Cons.prems(2,3) by auto
  have dist: "distinct (map r_id rs)" using Cons.prems(2) by simp
  have range: "[k..<k + length (r # rs)] = k # [Suc k..<Suc k + length rs]"
    using upt_conv_Cons [of k "Suc (k + length rs)"] by (simp del: upt_Suc)
  show ?case
  proof (cases "queue_add_ok env k")
    case True
    let ?q = "\<lparr>q_name = ''send-email'',
               q_data = \<lparr>t_recipientId = r_id r, t_email = r_email r,
                         t_subject = d_subject d, t_body = d_body d,
                         t_jobId = job_cuid env, t_userId = u_id u,
                         t_hourlyLimit = d_hourlyLimit d\<rparr>,
               q_delay = max 0 (t + int k * d_delaySeconds d * 1000 - date_now env k), q_attempts = 3,
               q_backoff_type = ''exponential'', q_backoff_delay = 5000\<rparr>"
    let ?st2 = "?st1\<lparr>emailQueue := emailQueue ?st1 @ [?q]\<rparr>"
    have step: "fan_out env d t u k (r # rs) st = fan_out env d t u (Suc k) rs ?st2"
      using upd True by (simp add: Let_def)
    have "emailRecipients ?st2 = (A @ [?f r]) @ rs" by simp
    from Cons.IH [OF this dist dis, of "Suc k"] show ?thesis
      unfolding step range using True by simp
  next
    case False
    have step: "fan_out env d t u k (r # rs) st = (fst (fan_out env d t u (Suc k) rs ?st1), False)"
      using upd False by (simp add: Let_def)
    have "emailRecipients ?st1 = (A @ [?f r]) @ rs" by simp
    from Cons.IH [OF this dist dis, of "Suc k"] show ?thesis
      unfolding step range using False by simp
  qed
qed


lemma map_enumerate_index:
  "map (\<lambda>(i, e). g i) (enumerate k xs) = map g [k..<k + length xs]"
proof (induction xs arbitrary: k)
  case Nil
  show ?case by simp
next
  case (Cons x xs)
  have "[k..<k + length (x # xs)] = k # [Suc k..<Suc k + length xs]"
    using upt_conv_Cons [of k "Suc (k + length xs)"] by (simp del: upt_Suc)
  then show ?case using Cons.IH [of "Suc k"] by simp
qed

lemma map_enumerate_enumerate:
  "map (\<lambda>(i, r). g i r) (enumerate k (map (\<lambda>(i, e). f i e) (enumerate k xs))) =
   map (\<lambda>(i, e). g i (f i e)) (enumerate k xs)"
  by (induction xs arbitrary: k) simp_all

lemma new_recipients_ids:
  "map r_id (new_recipients env emails) = map (recipient_cuid env) [0..<length emails]"
  using map_enumerate_index [of "recipient_cuid env" 0 emails]
  by (simp add: new_recipients_def case_prod_unfold comp_def)

lemma resolve_user_Next:
  assumes "db_user_findUnique_id (d_userId d) st \<noteq> None
          \<or> (\<exists>em. d_userEmail d = Some em \<and> em \<noteq> [])"
  shows "\<exists>u st1. resolve_user d st = Next (u, st1) \<and> emailJobs st1 = emailJobs st
           \<and> emailRecipients st1 = emailRecipients st \<and> emailQueue st1 = emailQueue st
           \<and> u \<in> set (users st1)"
proof (cases "db_user_findUnique_id (d_userId d) st")
  case (Some u)
  then have "u \<in> set (users st)"
    by (auto simp: db_user_findUnique_id_def find_Some_iff)
  then show ?thesis using Some by (simp add: resolve_user_def)
next
  case None
  then obtain em where em: "d_userEmail d = Some em" "em \<noteq> []" using assms by auto
  let ?u = "\<lparr>u_id = d_userId d, u_email = em, u_name = split_at_0 em\<rparr>"
  show ?thesis
  proof (cases "list_ex (\<lambda>v. u_id v = u_id ?u \<or> u_email v = u_email ?u) (users st)")
    case False
    then have "db_user_create ?u st = Inr (st\<lparr>users := users st @ [?u]\<rparr>)"
      by (simp add: db_user_create_def)
    then show ?thesis using None em by (simp add: resolve_user_def Let_def)
  next
    case True
    have noid: "\<not> list_ex (\<lambda>v. u_id v = d_userId d) (users st)"
      using None by (auto simp: db_user_findUnique_id_def find_None_iff list_ex_iff)
    then have "\<exists>v\<in>set (users st). u_email v = em"
      using True by (auto simp: list_ex_iff)
    then obtain v where v: "db_user_findUnique_email em st = Some v"
      by (cases "db_user_findUnique_email em st")
         (auto simp: db_user_findUnique_email_def find_None_iff)
    then have "v \<in> set (users st)"
      by (auto simp: db_user_findUnique_email_def find_Some_iff)
    moreover have "db_user_create ?u st = Inl P2002"
      using True by (simp add: db_user_create_def)
    ultimately show ?thesis
      using None em v by (simp add: resolve_user_def Let_def P2002_def)
  qed
qed

lemma create_emailJob_fresh:
  assumes "u \<in> set (users st1)"
      and "job_cuid env \<notin> j_id ` set (emailJobs st1)"
      and "distinct (map (recipient_cuid env) [0..<length (d_recipients d)])"
      and "\<forall>i<length (d_recipients d). recipient_cuid env i \<notin> r_id ` set (emailRecipients st1)"
  shows "create_emailJob env d (Some t) u st1 =
           Inr (st1\<lparr>emailJobs := emailJobs st1 @
                        [\<lparr>j_id = job_cuid env, j_subject = d_subject d, j_body = d_body d,
                          j_scheduledFor = t, j_delaySeconds = d_delaySeconds d,
                          j_hourlyLimit = d_hourlyLimit d, j_status = JobPending,
                          j_userId = u_id u\<rparr>],
                     emailRecipients := emailRecipients st1 @ new_recipients env (d_recipients d)\<rparr>)"
proof -
  have a: "list_ex (\<lambda>v. u_id v = u_id u) (users st1)"
    using assms(1) by (auto simp: list_ex_iff)
  have b: "\<not> list_ex (\<lambda>k. j_id k = job_cuid env) (emailJobs st1)"
    using assms(2) by (auto simp: list_ex_iff image_iff)
  have c: "\<not> list_ex (\<lambda>r. r_id r \<in> set (map r_id (new_recipients env (d_recipients d))))
               (emailRecipients st1)"
  proof
    assume "list_ex (\<lambda>r. r_id r \<in> set (map r_id (new_recipients env (d_recipients d))))
               (emailRecipients st1)"
    then obtain r where r: "r \<in> set (emailRecipients st1)"
        "r_id r \<in> set (map (recipient_cuid env) [0..<length (d_recipients d)])"
      unfolding list_ex_iff new_recipients_ids by blast
    from r(2) obtain i where i: "i < length (d_recipients d)" "r_id r = recipient_cuid env i"
      by auto
    have "recipient_cuid env i \<in> r_id ` set (emailRecipients st1)"
      using r(1) i(2) by (metis imageI)
    then show False using assms(4) i(1) by blast
  qed
  have e: "distinct (map r_id (new_recipients env (d_recipients d)))"
    using assms(3) by (simp add: new_recipients_ids)
  show ?thesis
    using a b c e by (simp add: create_emailJob_def db_emailJob_create_def)
qed

lemma post_schedule_created:
  assumes parse: "scheduleEmailSchema_parse L b = Inr d"
      and uid: "d_userId d \<noteq> ''default-user''" "d_userId d \<noteq> []"
      and known: "db_user_findUnique_id (d_userId d) st \<noteq> None
          \<or> (\<exists>em. d_userEmail d = Some em \<and> em \<noteq> [])"
      and date: "date_parse L (d_startTime d) = Some t"
      and jfresh: "job_cuid env \<notin> j_id ` set (emailJobs st)"
      and rdist: "distinct (map (recipient_cuid env) [0..<length (d_recipients d)])"
      and rfresh: "\<forall>i<length (d_recipients d). recipient_cuid env i \<notin> r_id ` set (emailRecipients st)"
  shows "snd (post_schedule L env b st) =
           (if list_all (queue_add_ok env) [0..<length (d_recipients d)]
            then \<lparr>status_code = 200,
                  json_body = JObj [(''jobId'', JStr (job_cuid env)),
                                    (''recipientCount'', JNum (int (length (d_recipients d)))),
                                    (''scheduledFor'', JStr (toISOString L t))]\<rparr>
            else error_response 500 ''Failed to schedule email'')
       \<and> emailRecipients (fst (post_schedule L env b st)) =
           emailRecipients st @
           map (\<lambda>(i, email).
                  \<lparr>r_id = recipient_cuid env i, r_email = email, r_emailJobId = job_cuid env,
                   r_status = (if max 0 (t + int i * d_delaySeconds d * 1000 - date_now env i) < 10000
                               then Pending else Scheduled),
                   r_scheduledAt = Some (t + int i * d_delaySeconds d * 1000),
                   r_sentAt = None, r_errorMessage = None, r_retryCount = 0\<rparr>)
               (enumerate 0 (d_recipients d))
       \<and> (\<exists>owner. emailJobs (fst (post_schedule L env b st)) =
             emailJobs st @
               [\<lparr>j_id = job_cuid env, j_subject = d_subject d, j_body = d_body d,
                 j_scheduledFor = t, j_delaySeconds = d_delaySeconds d,
                 j_hourlyLimit = d_hourlyLimit d, j_status = JobPending, j_userId = owner\<rparr>])"
proof -
  obtain u st1 where r: "resolve_user d st = Next (u, st1)" "emailJobs st1 = emailJobs st"
      "emailRecipients st1 = emailRecipients st" "u \<in> set (users st1)"
    using resolve_user_Next [OF known] by blast
  let ?new = "new_recipients env (d_recipients d)"
  let ?job = "\<lparr>j_id = job_cuid env, j_subject = d_subject d, j_body = d_body d,
                j_scheduledFor = t, j_delaySeconds = d_delaySeconds d,
                j_hourlyLimit = d_hourlyLimit d, j_status = JobPending, j_userId = u_id u\<rparr>"
  let ?st2 = "st1\<lparr>emailJobs := emailJobs st1 @ [?job],
                   emailRecipients := emailRecipients st1 @ ?new\<rparr>"
  have cr: "create_emailJob env d (Some t) u st1 = Inr ?st2"
    using create_emailJob_fresh [OF r(4), of env d t] jfresh rdist rfresh r(2,3) by simp
  have tbl: "emailRecipients ?st2 = emailRecipients st @ ?new"
    using r(3) by simp
  have dist: "distinct (map r_id ?new)"
    using rdist by (simp add: new_recipients_ids)
  have dis: "r_id ` set (emailRecipients st) \<inter> r_id ` set ?new = {}"
  proof -
    have "r_id ` set ?new = set (map r_id ?new)" by simp
    also have "\<dots> = set (map (recipient_cuid env) [0..<length (d_recipients d)])"
      by (simp only: new_recipients_ids)
    also have "\<dots> = recipient_cuid env ` {0..<length (d_recipients d)}" by simp
    finally have ids: "r_id ` set ?new = recipient_cuid env ` {0..<length (d_recipients d)}" .
    have "x \<notin> recipient_cuid env ` {0..<length (d_recipients d)}"
      if "x \<in> r_id ` set (emailRecipients st)" for x
    proof
      assume "x \<in> recipient_cuid env ` {0..<length (d_recipients d)}"
      then obtain i where "i < length (d_recipients d)" "x = recipient_cuid env i" by auto
      then show False using rfresh that by blast
    qed
    then show ?thesis unfolding ids by blast
  qed
  note fo = fan_out_recipients [OF tbl dist dis, of env d t u 0]
  have len: "length ?new = length (d_recipients d)"
    by (simp add: new_recipients_def)
  have run: "post_schedule L env b st =
      (case fan_out env d t u 0 ?new ?st2 of
         (st3, fulfilled) \<Rightarrow>
           (if fulfilled
            then (st3, \<lparr>status_code = 200,
                        json_body = JObj [(''jobId'', JStr (job_cuid env)),
                                          (''recipientCount'', JNum (int (length ?new))),
                                          (''scheduledFor'', JStr (toISOString L t))]\<rparr>)
            else (st3, error_response 500 ''Failed to schedule email'')))"
    using parse uid date r(1) cr by (simp add: post_schedule_def split: prod.splits)
  have rows: "map (\<lambda>(i, r). r\<lparr>r_scheduledAt := Some (t + int i * d_delaySeconds d * 1000),
                                r_status := (if max 0 (t + int i * d_delaySeconds d * 1000 - date_now env i) < 10000
                                             then Pending else Scheduled)\<rparr>)
                   (enumerate 0 ?new) =
              map (\<lambda>(i, email).
                  \<lparr>r_id = recipient_cuid env i, r_email = email, r_emailJobId = job_cuid env,
                   r_status = (if max 0 (t + int i * d_delaySeconds d * 1000 - date_now env i) < 10000
                               then Pending else Scheduled),
                   r_scheduledAt = Some (t + int i * d_delaySeconds d * 1000),
                   r_sentAt = None, r_errorMessage = None, r_retryCount = 0\<rparr>)
               (enumerate 0 (d_recipients d))"
    unfolding new_recipients_def map_enumerate_enumerate by simp
  show ?thesis
    using fo rows len r(2) unfolding run
    by (cases "fan_out env d t u 0 ?new ?st2") auto
qed

lemma demo_parse: "scheduleEmailSchema_parse demo_libs demo_body = Inr demo_data"
  by (simp add: scheduleEmailSchema_parse_def schema_issues_def string_min1_issues_def
        recipients_issues_def startTime_issues_def preprocess_startTime_def number_issues_def
        string_issues_def optional_email_issues_def demo_libs_def demo_body_def demo_data_def)

lemmas post_schedule_defs = post_schedule_def resolve_user_def db_user_findUnique_id_def
  db_user_findUnique_email_def db_user_create_def create_emailJob_def db_emailJob_create_def
  new_recipients_def db_emailRecipient_update_def error_response_def P2002_def Let_def

lemma demo_libs_simps:
  "date_parse demo_libs ''2030-01-01T00:00:00.000Z'' = Some 1893456000000"
  "toISOString demo_libs 1893456000000 = ''2030-01-01T00:00:00.000Z''"
  by (simp_all add: demo_libs_def)

lemmas demo_schedule_defs = demo_parse demo_libs_simps demo_data_def demo_schedule_env_def
  empty_state_def at_start_def ten_seconds_early_def eight_seconds_early_def every_add_def
  all_but_second_def all_but_third_def






text \<open>
  C6. During a submission that creates the job (whether or not the enqueues succeed
  afterwards), the row of the recipient at position \<open>i\<close> is stored with its
  \<open>scheduledAt\<close> and with status \<open>pending\<close> when
  \<open>queueDelay = max 0 (scheduledAt - now)\<close> is below 10000 ms, and with status
  \<open>scheduled\<close> otherwise; \<open>now\<close> is the clock reading in that recipient's callback.
\<close>

theorem post_schedule_classifies:
  assumes "scheduleEmailSchema_parse L b = Inr d"
      and "d_userId d \<noteq> ''default-user''" and "d_userId d \<noteq> []"
      and "db_user_findUnique_id (d_userId d) st \<noteq> None
          \<or> (\<exists>em. d_userEmail d = Some em \<and> em \<noteq> [])"
      and "date_parse L (d_startTime d) = Some t"
      and "job_cuid env \<notin> j_id ` set (emailJobs st)"
      and "distinct (map (recipient_cuid env) [0..<length (d_recipients d)])"
      and "\<forall>i<length (d_recipients d). recipient_cuid env i \<notin> r_id ` set (emailRecipients st)"
  shows "\<forall>i<length (d_recipients d).
           r_id (emailRecipients (fst (post_schedule L env b st)) ! (length (emailRecipients st) + i))
             = recipient_cuid env i
         \<and> r_scheduledAt (emailRecipients (fst (post_schedule L env b st)) ! (length (emailRecipients st) + i))
             = Some (t + int i * d_delaySeconds d * 1000)
         \<and> r_status (emailRecipients (fst (post_schedule L env b st)) ! (length (emailRecipients st) + i))
             = (if max 0 (t + int i * d_delaySeconds d * 1000 - date_now env i) < 10000
                then Pending else Scheduled)"
  using post_schedule_created [OF assms] by (simp add: nth_append nth_enumerate_eq)

theorem post_schedule_classifies_witness:
  "map (\<lambda>r. (r_status r, r_scheduledAt r))
     (emailRecipients (fst (post_schedule demo_libs
         (demo_schedule_env eight_seconds_early every_add) demo_body empty_state)))
     = [(Pending, Some 1893456000000), (Scheduled, Some 1893456005000),
        (Scheduled, Some 1893456010000)]"
proof -
  let ?env = "demo_schedule_env eight_seconds_early every_add"
  have h: "d_userId demo_data \<noteq> ''default-user''" "d_userId demo_data \<noteq> []"
      "db_user_findUnique_id (d_userId demo_data) empty_state \<noteq> None
         \<or> (\<exists>em. d_userEmail demo_data = Some em \<and> em \<noteq> [])"
      "date_parse demo_libs (d_startTime demo_data) = Some 1893456000000"
      "job_cuid ?env \<notin> j_id ` set (emailJobs empty_state)"
      "distinct (map (recipient_cuid ?env) [0..<length (d_recipients demo_data)])"
      "\<forall>i<length (d_recipients demo_data). recipient_cuid ?env i \<notin> r_id ` set (emailRecipients empty_state)"
    by (simp_all add: demo_schedule_defs)
  show ?thesis
    using post_schedule_classifies [OF demo_parse h]
    by (simp add: post_schedule_defs demo_schedule_defs)
qed




text \<open>
  C9, as stated, fails: when the enqueue of one recipient fails after the job and
  its recipients were written, the answer is status 500 with the single field
  \<open>error\<close>; neither the job id nor any recipient id occurs in it.
\<close>

theorem enqueue_failure_counterexample:
  "snd (post_schedule demo_libs (demo_schedule_env at_start all_but_second)
          demo_body empty_state)
     = \<lparr>status_code = 500, json_body = JObj [(''error'', JStr ''Failed to schedule email'')]\<rparr>
   \<and> map j_id (emailJobs (fst (post_schedule demo_libs
         (demo_schedule_env at_start all_but_second) demo_body empty_state)))
     = [''j1'']
   \<and> map r_id (emailRecipients (fst (post_schedule demo_libs
         (demo_schedule_env at_start all_but_second) demo_body empty_state)))
     = [''r0'', ''r1'', ''r2'']
   \<and> json_strings (json_body (snd (post_schedule demo_libs
         (demo_schedule_env at_start all_but_second) demo_body empty_state)))
     = [''Failed to schedule email'']
   \<and> ''j1'' \<notin> set (json_strings (json_body (snd (post_schedule demo_libs
         (demo_schedule_env at_start all_but_second) demo_body empty_state))))
   \<and> ''r1'' \<notin> set (json_strings (json_body (snd (post_schedule demo_libs
         (demo_schedule_env at_start all_but_second) demo_body empty_state))))"
  by (simp add: post_schedule_defs demo_schedule_defs)

text \<open>
  C9, amended. When an enqueue fails after the job and its recipients were written,
  the handler answers 500 with the body \<open>{error: 'Failed to schedule email'}\<close>,
  whose only string is that message; the job and the recipient rows stay in the
  store.
\<close>

theorem enqueue_failure_reported:
  assumes "scheduleEmailSchema_parse L b = Inr d"
      and "d_userId d \<noteq> ''default-user''" and "d_userId d \<noteq> []"
      and "db_user_findUnique_id (d_userId d) st \<noteq> None
          \<or> (\<exists>em. d_userEmail d = Some em \<and> em \<noteq> [])"
      and "date_parse L (d_startTime d) = Some t"
      and "job_cuid env \<notin> j_id ` set (emailJobs st)"
      and "distinct (map (recipient_cuid env) [0..<length (d_recipients d)])"
      and "\<forall>i<length (d_recipients d). recipient_cuid env i \<notin> r_id ` set (emailRecipients st)"
      and "\<exists>i<length (d_recipients d). \<not> queue_add_ok env i"
  shows "snd (post_schedule L env b st) =
           \<lparr>status_code = 500, json_body = JObj [(''error'', JStr ''Failed to schedule email'')]\<rparr>
       \<and> json_strings (json_body (snd (post_schedule L env b st))) = [''Failed to schedule email'']
       \<and> map j_id (emailJobs (fst (post_schedule L env b st))) = map j_id (emailJobs st) @ [job_cuid env]
       \<and> map r_id (emailRecipients (fst (post_schedule L env b st))) =
           map r_id (emailRecipients st) @ map (recipient_cuid env) [0..<length (d_recipients d)]"
proof -
  have ok: "\<not> list_all (queue_add_ok env) [0..<length (d_recipients d)]"
    using assms(9) by (auto simp: list_all_iff)
  note run = post_schedule_created [OF assms(1-8)]
  have resp: "snd (post_schedule L env b st) =
           \<lparr>status_code = 500, json_body = JObj [(''error'', JStr ''Failed to schedule email'')]\<rparr>"
    using run ok by (simp add: error_response_def)
  have jobs: "map j_id (emailJobs (fst (post_schedule L env b st))) = map j_id (emailJobs st) @ [job_cuid env]"
    using run by auto
  have ids: "map r_id (emailRecipients (fst (post_schedule L env b st))) =
           map r_id (emailRecipients st) @ map (recipient_cuid env) [0..<length (d_recipients d)]"
    using run map_enumerate_index [of "recipient_cuid env" 0 "d_recipients d"]
    by (simp add: case_prod_unfold comp_def)
  show ?thesis using resp jobs ids by simp
qed

theorem enqueue_failure_reported_witness:
  "snd (post_schedule demo_libs (demo_schedule_env at_start all_but_third)
          demo_body empty_state)
     = \<lparr>status_code = 500, json_body = JObj [(''error'', JStr ''Failed to schedule email'')]\<rparr>
   \<and> length (emailQueue (fst (post_schedule demo_libs
         (demo_schedule_env at_start all_but_third) demo_body empty_state))) = 2
   \<and> map r_id (emailRecipients (fst (post_schedule demo_libs
         (demo_schedule_env at_start all_but_third) demo_body empty_state)))
     = [''r0'', ''r1'', ''r2'']"
proof -
  let ?env = "demo_schedule_env at_start all_but_third"
  have h: "d_userId demo_data \<noteq> ''default-user''" "d_userId demo_data \<noteq> []"
      "db_user_findUnique_id (d_userId demo_data) empty_state \<noteq> None
         \<or> (\<exists>em. d_userEmail demo_data = Some em \<and> em \<noteq> [])"
      "date_parse demo_libs (d_startTime demo_data) = Some 1893456000000"
      "job_cuid ?env \<notin> j_id ` set (emailJobs empty_state)"
      "distinct (map (recipient_cuid ?env) [0..<length (d_recipients demo_data)])"
      "\<forall>i<length (d_recipients demo_data). recipient_cuid ?env i \<notin> r_id ` set (emailRecipients empty_state)"
    by (simp_all add: demo_schedule_defs)
  have f: "\<exists>i<length (d_recipients demo_data). \<not> queue_add_ok ?env i"
    by (rule exI [of _ 2]) (simp add: demo_schedule_defs)
  show ?thesis
    using enqueue_failure_reported [OF demo_parse h f]
    by (simp add: post_schedule_defs demo_schedule_defs)
qed

subsection \<open>Validation and the reserved user id\<close>














subsection \<open>The read handlers\<close>

lemma sanitize_Bob: "sanitizeEmail ''Bob@X.com'' = ''bob@x.com''"
  by code_simp

lemma regex_bob: "emailRegex_test ''bob@x.com''"
  by code_simp

lemma split_bob: "split_at_0 ''bob@x.com'' = ''bob''"
  by (simp add: split_at_0_def)

lemma owned_by_none:
  assumes "\<forall>j\<in>set (emailJobs st). j_userId j \<noteq> uid"
  shows "\<not> owned_by st uid r"
proof (cases "emailJob_of st r")
  case None
  then show ?thesis by (simp add: owned_by_def)
next
  case (Some j)
  then have "j \<in> set (emailJobs st)"
    by (auto simp: emailJob_of_def find_Some_iff)
  then show ?thesis using Some assms by (simp add: owned_by_def)
qed

lemma user_for_read_creates:
  assumes "emailRegex_test e'" and "\<forall>u\<in>set (users st). u_email u \<noteq> e'"
      and "\<forall>u\<in>set (users st). u_id u \<noteq> cuid"
  shows "user_for_read cuid e' st =
           Next (\<lparr>u_id = cuid, u_email = e', u_name = split_at_0 e'\<rparr>,
                 st\<lparr>users := users st @ [\<lparr>u_id = cuid, u_email = e', u_name = split_at_0 e'\<rparr>]\<rparr>)"
proof -
  have none: "getUserByEmail e' st = None"
    using assms(1,2) by (auto simp: getUserByEmail_def db_user_findUnique_email_def find_None_iff)
  have "\<not> list_ex (\<lambda>v. u_id v = cuid \<or> u_email v = e') (users st)"
    using assms(2,3) by (auto simp: list_ex_iff)
  then show ?thesis
    using none by (simp add: user_for_read_def db_user_create_def Let_def)
qed

text \<open>
  C10, as stated, fails: the handlers look up and create the user under the
  sanitised address. For the well-formed address \<open>Bob@X.com\<close> and an empty store
  the row created has the email \<open>bob@x.com\<close> and the name \<open>bob\<close>; no row with
  the email \<open>Bob@X.com\<close> exists afterwards.
\<close>

theorem get_creates_user_counterexample:
  "map u_email (users (fst (get_scheduled demo_libs ''c1'' (Some ''Bob@X.com'') empty_state)))
     = [''bob@x.com'']
   \<and> map u_name (users (fst (get_scheduled demo_libs ''c1'' (Some ''Bob@X.com'') empty_state)))
     = [''bob'']
   \<and> ''Bob@X.com'' \<notin> set (map u_email
         (users (fst (get_scheduled demo_libs ''c1'' (Some ''Bob@X.com'') empty_state))))"
  by (simp add: get_scheduled_def sanitize_Bob regex_bob split_bob user_for_read_def
        getUserByEmail_def db_user_findUnique_email_def db_user_create_def
        db_emailRecipient_findMany_def empty_state_def Let_def)

text \<open>
  C10, amended. For both read handlers: when the sanitised (trimmed, lower-cased)
  \<open>userEmail\<close> matches the pattern and no user row has that sanitised address,
  and the generated id is new (no user row has it and no job names it as owner),
  the handler appends a user row with the generated id, the sanitised address as
  email and the part of the sanitised address before the \<open>@\<close> as name, changes
  nothing else, and answers 200 with an empty array.
\<close>

theorem get_creates_user:
  assumes "e \<noteq> []" and "emailRegex_test (sanitizeEmail e)"
      and "\<forall>u\<in>set (users st). u_email u \<noteq> sanitizeEmail e"
      and "\<forall>u\<in>set (users st). u_id u \<noteq> cuid"
      and "\<forall>j\<in>set (emailJobs st). j_userId j \<noteq> cuid"
  shows "get_scheduled L cuid (Some e) st =
           (st\<lparr>users := users st @
                  [\<lparr>u_id = cuid, u_email = sanitizeEmail e,
                    u_name = split_at_0 (sanitizeEmail e)\<rparr>]\<rparr>,
            \<lparr>status_code = 200, json_body = JArr []\<rparr>)
       \<and> get_sent L cuid (Some e) st =
           (st\<lparr>users := users st @
                  [\<lparr>u_id = cuid, u_email = sanitizeEmail e,
                    u_name = split_at_0 (sanitizeEmail e)\<rparr>]\<rparr>,
            \<lparr>status_code = 200, json_body = JArr []\<rparr>)"
proof -
  let ?u = "\<lparr>u_id = cuid, u_email = sanitizeEmail e, u_name = split_at_0 (sanitizeEmail e)\<rparr>"
  let ?st1 = "st\<lparr>users := users st @ [?u]\<rparr>"
  have u: "user_for_read cuid (sanitizeEmail e) st = Next (?u, ?st1)"
    by (rule user_for_read_creates [OF assms(2,3,4)])
  have "\<forall>j\<in>set (emailJobs ?st1). j_userId j \<noteq> cuid"
    using assms(5) by simp
  then have no: "\<And>r. \<not> owned_by ?st1 cuid r"
    by (rule owned_by_none)
  have a: "db_emailRecipient_findMany
             (\<lambda>r. r_status r \<in> {Pending, Scheduled} \<and> owned_by ?st1 cuid r) ?st1 = []"
    using no by (simp add: db_emailRecipient_findMany_def)
  have b: "db_emailRecipient_findMany
             (\<lambda>r. r_status r \<in> {Sent, Failed} \<and> owned_by ?st1 cuid r) ?st1 = []"
    using no by (simp add: db_emailRecipient_findMany_def)
  have s: "get_scheduled L cuid (Some e) st = (?st1, \<lparr>status_code = 200, json_body = JArr []\<rparr>)"
    using assms(1,2) u a by (simp add: get_scheduled_def Let_def)
  have t: "get_sent L cuid (Some e) st = (?st1, \<lparr>status_code = 200, json_body = JArr []\<rparr>)"
    using assms(1,2) u b by (simp add: get_sent_def Let_def)
  show ?thesis using s t by simp
qed

theorem get_creates_user_witness:
  "snd (get_scheduled demo_libs ''c1'' (Some ''Bob@X.com'') empty_state)
     = \<lparr>status_code = 200, json_body = JArr []\<rparr>
   \<and> users (fst (get_sent demo_libs ''c1'' (Some ''Bob@X.com'') empty_state))
     = [\<lparr>u_id = ''c1'', u_email = ''bob@x.com'', u_name = ''bob''\<rparr>]"
proof -
  have h: "''Bob@X.com'' \<noteq> []" "emailRegex_test (sanitizeEmail ''Bob@X.com'')"
      "\<forall>u\<in>set (users empty_state). u_email u \<noteq> sanitizeEmail ''Bob@X.com''"
      "\<forall>u\<in>set (users empty_state). u_id u \<noteq> ''c1''"
      "\<forall>j\<in>set (emailJobs empty_state). j_userId j \<noteq> ''c1''"
    by (simp_all add: sanitize_Bob regex_bob empty_state_def)
  show ?thesis
    using get_creates_user [OF h, of demo_libs]
    by (simp add: sanitize_Bob split_bob empty_state_def)
qed

end
